theory Spec2Isabelle
  imports Complex_Main
begin

section \<open>The financial model of \<open>cost_estimator.py\<close>\<close>

text \<open>
  The core of the program is the function \<open>calculate_financials\<close>. It is embedded here
  with the following reading of Python's values:
  \<^item> \<open>mau\<close> is a Python \<open>int\<close> (the slider that produces it has integer bounds and step),
    modelled as \<^typ>\<open>int\<close>; where the code multiplies it with a float the model
    multiplies \<open>real_of_int mau\<close>, which is what Python computes for every int that
    converts to a float (see \<open>int_float_limit\<close> below);
  \<^item> every other number is a Python \<open>float\<close>, read as an exact \<^typ>\<open>real\<close>: rounding,
    infinities and NaN are outside the model;
  \<^item> an exception is a value \<open>Inl e\<close> of the result type, a normal return is \<open>Inr v\<close>;
  \<^item> the \<open>costs\<close> dict is an association list in insertion order, which is the order
    \<open>costs.values()\<close> iterates in.
\<close>

subsection \<open>Python primitives\<close>

datatype error = ValueError | ZeroDivisionError | KeyError | ComplexResult

text \<open>
  In \<open>n * x\<close> with an int \<open>n\<close> and a float \<open>x\<close> (lines 25, 39, 52 and 60) Python first
  converts \<open>n\<close> to a float. The conversion rounds to nearest, so it succeeds exactly for
  \<open>\<bar>n\<bar> < 2^1024 - 2^970\<close>, the midpoint between the largest finite double and
  \<open>2^1024\<close>; from there on it raises \<open>OverflowError\<close>. That error is not part of the model:
  the statements below on which calls return a report are made for \<open>mau\<close> within this
  limit, which is far beyond the slider's maximum of 20,000,000. (\<open>math.log10\<close> takes
  its int argument without this conversion failing.)
\<close>

definition int_float_limit :: int where
  "int_float_limit = 2 ^ 1024 - 2 ^ 970"

text \<open>\<open>x / y\<close> on floats raises \<open>ZeroDivisionError\<close> when the divisor is zero.\<close>

definition py_truediv :: "real \<Rightarrow> real \<Rightarrow> error + real" where
  "py_truediv x y = (if y = 0 then Inl ZeroDivisionError else Inr (x / y))"

text \<open>\<open>math.log10\<close> raises \<open>ValueError\<close> (math domain error) outside the positive reals.\<close>

definition math_log10 :: "real \<Rightarrow> error + real" where
  "math_log10 x = (if x \<le> 0 then Inl ValueError else Inr (log 10 x))"

text \<open>
  \<open>x ** y\<close> with a positive literal exponent that is not an integer (here 1.5 and 1.8).
  For a negative base Python does not raise but returns a \<open>complex\<close>; the model has no
  complex values and stops with \<open>ComplexResult\<close> there.
\<close>

definition py_pow :: "real \<Rightarrow> real \<Rightarrow> error + real" where
  "py_pow x y = (if x < 0 then Inl ComplexResult else Inr (x powr y))"

type_synonym dict = "(string \<times> real) list"

text \<open>\<open>d[k] = v\<close>: an existing key keeps its position, a new key goes to the end.\<close>

fun dict_set :: "dict \<Rightarrow> string \<Rightarrow> real \<Rightarrow> dict" where
  "dict_set [] k v = [(k, v)]"
| "dict_set ((k', v') # d) k v = (if k' = k then (k, v) # d else (k', v') # dict_set d k v)"

text \<open>\<open>d[k]\<close> raises \<open>KeyError\<close> on a missing key.\<close>

definition dict_get :: "dict \<Rightarrow> string \<Rightarrow> error + real" where
  "dict_get d k = (case map_of d k of None \<Rightarrow> Inl KeyError | Some v \<Rightarrow> Inr v)"

definition dict_values :: "dict \<Rightarrow> real list" where
  "dict_values d = map snd d"

text \<open>\<open>sum(xs)\<close> starts from 0 and adds from left to right.\<close>

definition py_sum :: "real list \<Rightarrow> real" where
  "py_sum xs = foldl (+) 0 xs"

subsection \<open>Formatting the threshold\<close>

text \<open>
  The format specification \<open>,.0f\<close> applied to an integer: a minus sign when negative,
  then the decimal digits in groups of three from the right, separated by commas.
\<close>

fun digits10 :: "nat \<Rightarrow> string" where
  "digits10 n =
     (if n < 10 then [''0123456789'' ! n]
      else digits10 (n div 10) @ [''0123456789'' ! (n mod 10)])"

declare digits10.simps [simp del]

fun group3 :: "string \<Rightarrow> string" where
  "group3 (a # b # c # d # rest) = a # b # c # CHR '','' # group3 (d # rest)"
| "group3 xs = xs"

definition format_thousands :: "int \<Rightarrow> string" where
  "format_thousands i =
     (if i < 0 then ''-'' else []) @ rev (group3 (rev (digits10 (nat \<bar>i\<bar>))))"

subsection \<open>Constants\<close>

definition PRICE_PER_VIDEO_MINUTE_TRANSCODE :: real where
  "PRICE_PER_VIDEO_MINUTE_TRANSCODE = 0.0075"

definition PRICE_PER_1000_CHARS_AI :: real where
  "PRICE_PER_1000_CHARS_AI = 0.09"

definition PRICE_PER_GB_STORAGE :: real where
  "PRICE_PER_GB_STORAGE = 0.015"

definition PRICE_PER_MILLION_READ_OPS :: real where
  "PRICE_PER_MILLION_READ_OPS = 0.36"

definition AD_IMPRESSION_THRESHOLD :: int where
  "AD_IMPRESSION_THRESHOLD = 2000000"

subsection \<open>The two messages\<close>

text \<open>
  The messages are given as the UTF-8 bytes of the source's literals: the first starts
  with U+2705, the second with U+26A0 U+FE0F.
\<close>

definition eligible_message :: string where
  "eligible_message =
     [CHR 0xE2, CHR 0x9C, CHR 0x85] @ '' Platform is eligible for AdSense for Video.''"

definition not_eligible_message :: string where
  "not_eligible_message =
     [CHR 0xE2, CHR 0x9A, CHR 0xA0, CHR 0xEF, CHR 0xB8, CHR 0x8F]
     @ '' Platform is NOT eligible for AdSense. Needs >''
     @ format_thousands AD_IMPRESSION_THRESHOLD @ '' monthly views.''"

subsection \<open>Cost calculation\<close>

text \<open>Line 44: \<open>scale_factor = math.log10(mau + 1) / math.log10(100000)\<close>.\<close>

definition scale_factor :: "int \<Rightarrow> error + real" where
  "scale_factor mau =
     (case math_log10 (real_of_int (mau + 1)) of
        Inl e \<Rightarrow> Inl e
      | Inr a \<Rightarrow>
          (case math_log10 100000 of
             Inl e \<Rightarrow> Inl e
           | Inr b \<Rightarrow> py_truediv a b))"

text \<open>Line 22: the dict comprehension of the branch \<open>mau == 0\<close>.\<close>

definition zero_costs :: dict where
  "zero_costs =
     map (\<lambda>key. (key, 0))
       [''media_processing'', ''storage_delivery'', ''database'',
        ''compute_recommendation'', ''devops'', ''total'']"

text \<open>Lines 25 and 26.\<close>

definition videos_per_month :: "int \<Rightarrow> real \<Rightarrow> real \<Rightarrow> real" where
  "videos_per_month mau dau_percent upload_percent =
     (let dau = real_of_int mau * (dau_percent / 100)
      in dau * (upload_percent / 100) * 30)"

text \<open>Lines 27 to 32: the value stored under \<open>media_processing\<close>.\<close>

definition media_processing :: "real \<Rightarrow> real \<Rightarrow> real" where
  "media_processing vpm video_length_sec =
     (let chars_per_video = (video_length_sec / 30) * 450;
          num_renditions = 5;
          transcode_cost = vpm * (video_length_sec / 60) * num_renditions
                             * PRICE_PER_VIDEO_MINUTE_TRANSCODE;
          ai_cost = (vpm * (chars_per_video * 2) / 1000) * PRICE_PER_1000_CHARS_AI
      in transcode_cost + ai_cost)"

text \<open>Lines 34 to 42: the value stored under \<open>storage_delivery\<close>.\<close>

definition storage_delivery :: "real \<Rightarrow> int \<Rightarrow> real \<Rightarrow> real" where
  "storage_delivery vpm mau data_consumption_gb =
     (let total_videos_stored = vpm * 12;
          total_gb_stored = (total_videos_stored * 75) / 1024;
          storage_cost = total_gb_stored * PRICE_PER_GB_STORAGE;
          total_gb_delivered = real_of_int mau * data_consumption_gb;
          read_ops_millions = total_gb_delivered / 10;
          read_ops_cost = read_ops_millions * PRICE_PER_MILLION_READ_OPS
      in storage_cost + read_ops_cost)"

text \<open>
  Lines 25 to 48: the branch \<open>mau != 0\<close>. The dict starts empty (line 20) and receives
  its entries in the order of the assignments; \<open>total\<close> is the sum of the five values
  present when line 48 runs.
\<close>

definition nonzero_costs :: "int \<Rightarrow> real \<Rightarrow> real \<Rightarrow> real \<Rightarrow> real \<Rightarrow> error + dict" where
  "nonzero_costs mau dau_percent upload_percent video_length_sec data_consumption_gb =
     (let vpm = videos_per_month mau dau_percent upload_percent;
          costs = dict_set [] ''media_processing'' (media_processing vpm video_length_sec);
          costs = dict_set costs ''storage_delivery''
                    (storage_delivery vpm mau data_consumption_gb)
      in case scale_factor mau of
           Inl e \<Rightarrow> Inl e
         | Inr sf \<Rightarrow>
             (case py_pow sf 1.5 of
                Inl e \<Rightarrow> Inl e
              | Inr p \<Rightarrow>
                  (let costs = dict_set costs ''database'' (2550 * p)
                   in case py_pow sf 1.8 of
                        Inl e \<Rightarrow> Inl e
                      | Inr q \<Rightarrow>
                          (let costs = dict_set costs ''compute_recommendation'' (3250 * q);
                               costs = dict_set costs ''devops'' (50 * sf);
                               costs = dict_set costs ''total'' (py_sum (dict_values costs))
                           in Inr costs))))"

text \<open>Lines 20 to 48.\<close>

definition calculate_costs :: "int \<Rightarrow> real \<Rightarrow> real \<Rightarrow> real \<Rightarrow> real \<Rightarrow> error + dict" where
  "calculate_costs mau dau_percent upload_percent video_length_sec data_consumption_gb =
     (if mau = 0 then Inr zero_costs
      else nonzero_costs mau dau_percent upload_percent video_length_sec data_consumption_gb)"

subsection \<open>Revenue calculation\<close>

text \<open>Lines 57 and 58.\<close>

definition gb_per_video :: "real \<Rightarrow> real" where
  "gb_per_video video_length_sec =
     (let mb_per_video = (video_length_sec / 30) * 15 in mb_per_video / 1024)"

text \<open>Line 59: the division is on the true side of the conditional expression only.\<close>

definition views_per_user :: "real \<Rightarrow> real \<Rightarrow> error + real" where
  "views_per_user video_length_sec data_consumption_gb =
     (if gb_per_video video_length_sec > 0
      then py_truediv data_consumption_gb (gb_per_video video_length_sec)
      else Inr 0)"

text \<open>Line 60.\<close>

definition total_monthly_impressions :: "int \<Rightarrow> real \<Rightarrow> real \<Rightarrow> error + real" where
  "total_monthly_impressions mau video_length_sec data_consumption_gb =
     (case views_per_user video_length_sec data_consumption_gb of
        Inl e \<Rightarrow> Inl e
      | Inr v \<Rightarrow> Inr (real_of_int mau * v))"

subsection \<open>The report\<close>

record report =
  costs :: dict
  subscription_revenue :: real
  ad_revenue :: real
  total_revenue :: real
  net_profit :: real
  ad_eligibility_message :: string

definition calculate_financials ::
  "int \<Rightarrow> real \<Rightarrow> real \<Rightarrow> real \<Rightarrow> real \<Rightarrow> real \<Rightarrow> real \<Rightarrow> real \<Rightarrow> error + report" where
  "calculate_financials mau dau_percent upload_percent video_length_sec
       sub_price sub_percent ad_rpm data_consumption_gb =
     (case calculate_costs mau dau_percent upload_percent video_length_sec data_consumption_gb of
        Inl e \<Rightarrow> Inl e
      | Inr cs \<Rightarrow>
          (let num_subscribers = real_of_int mau * (sub_percent / 100);
               subscr_revenue = num_subscribers * sub_price
           in case total_monthly_impressions mau video_length_sec data_consumption_gb of
                Inl e \<Rightarrow> Inl e
              | Inr impressions \<Rightarrow>
                  (let (ad_rev, msg) =
                         (if impressions \<ge> real_of_int AD_IMPRESSION_THRESHOLD
                          then ((impressions / 1000) * ad_rpm, eligible_message)
                          else (0, not_eligible_message));
                       total_rev = subscr_revenue + ad_rev
                   in case dict_get cs ''total'' of
                        Inl e \<Rightarrow> Inl e
                      | Inr costs_total \<Rightarrow>
                          Inr \<lparr> costs = cs,
                                subscription_revenue = subscr_revenue,
                                ad_revenue = ad_rev,
                                total_revenue = total_rev,
                                net_profit = total_rev - costs_total,
                                ad_eligibility_message = msg \<rparr>)))"

text \<open>Reading one entry of the report's \<open>costs\<close>, as the display code does.\<close>

definition cost :: "report \<Rightarrow> string \<Rightarrow> error + real" where
  "cost r k = dict_get (costs r) k"

section \<open>Basic facts\<close>

lemma log10_100000: "log 10 (100000::real) = 5"
proof -
  have "(100000::real) = 10 powr 5" by simp
  then show ?thesis by (simp only: log_powr_cancel)
qed

lemma format_threshold: "format_thousands AD_IMPRESSION_THRESHOLD = ''2,000,000''"
  by (simp add: format_thousands_def AD_IMPRESSION_THRESHOLD_def digits10.simps)

lemma messages_differ: "eligible_message \<noteq> not_eligible_message"
  by (simp add: eligible_message_def not_eligible_message_def)

lemma scale_factor_pos:
  "0 \<le> mau \<Longrightarrow> scale_factor mau = Inr (log 10 (real_of_int (mau + 1)) / 5)"
  by (simp add: scale_factor_def math_log10_def py_truediv_def log10_100000)

lemma scale_factor_neg: "mau < 0 \<Longrightarrow> scale_factor mau = Inl ValueError"
  by (simp add: scale_factor_def math_log10_def)

lemma log10_succ_pos: "0 < mau \<Longrightarrow> 0 < log 10 (real_of_int (mau + 1))"
  by simp

lemma nonzero_costs_pos:
  assumes "0 < mau"
  shows "nonzero_costs mau dp up v d =
     Inr [(''media_processing'', media_processing (videos_per_month mau dp up) v),
          (''storage_delivery'', storage_delivery (videos_per_month mau dp up) mau d),
          (''database'', 2550 * (log 10 (real_of_int (mau + 1)) / 5) powr 1.5),
          (''compute_recommendation'', 3250 * (log 10 (real_of_int (mau + 1)) / 5) powr 1.8),
          (''devops'', 50 * (log 10 (real_of_int (mau + 1)) / 5)),
          (''total'',
             media_processing (videos_per_month mau dp up) v
             + storage_delivery (videos_per_month mau dp up) mau d
             + 2550 * (log 10 (real_of_int (mau + 1)) / 5) powr 1.5
             + 3250 * (log 10 (real_of_int (mau + 1)) / 5) powr 1.8
             + 50 * (log 10 (real_of_int (mau + 1)) / 5))]"
proof -
  have sf: "scale_factor mau = Inr (log 10 (real_of_int (mau + 1)) / 5)"
    using assms by (simp add: scale_factor_pos)
  have pos: "\<not> log 10 (real_of_int (mau + 1)) < 0"
    using log10_succ_pos [OF assms] by linarith
  show ?thesis
    using pos
    by (simp add: nonzero_costs_def Let_def sf py_pow_def py_sum_def dict_values_def
          del: of_int_add)
qed

lemma nonzero_costs_neg: "mau < 0 \<Longrightarrow> nonzero_costs mau dp up v d = Inl ValueError"
  by (simp add: nonzero_costs_def Let_def scale_factor_neg)

lemma views_per_user_eq:
  "views_per_user v d = Inr (if gb_per_video v > 0 then d / gb_per_video v else 0)"
  by (simp add: views_per_user_def py_truediv_def)

lemma impressions_eq:
  "total_monthly_impressions mau v d =
     Inr (real_of_int mau * (if gb_per_video v > 0 then d / gb_per_video v else 0))"
  by (simp add: total_monthly_impressions_def views_per_user_eq)


section \<open>What the two stages return\<close>

lemma calculate_costs_nonneg_returns:
  "0 \<le> mau \<Longrightarrow> \<exists>cs. calculate_costs mau dp up v d = Inr cs"
  by (cases "mau = 0") (simp_all add: calculate_costs_def nonzero_costs_pos)

lemma calculate_costs_neg: "mau < 0 \<Longrightarrow> calculate_costs mau dp up v d = Inl ValueError"
  by (simp add: calculate_costs_def nonzero_costs_neg)

lemma calculate_costs_total:
  assumes "calculate_costs mau dp up v d = Inr cs"
  shows "\<exists>t. dict_get cs ''total'' = Inr t"
proof (cases "mau = 0")
  case True
  with assms show ?thesis
    by (auto simp: calculate_costs_def zero_costs_def dict_get_def)
next
  case False
  with assms have "0 < mau"
    using calculate_costs_neg [of mau dp up v d] by (cases "mau < 0") simp_all
  with assms False show ?thesis
    by (auto simp: calculate_costs_def nonzero_costs_pos dict_get_def)
qed

lemma calculate_financials_Inr:
  assumes "calculate_financials mau dp up v sp spc rpm d = Inr r"
  shows "calculate_costs mau dp up v d = Inr (costs r)"
    and "subscription_revenue r = real_of_int mau * (spc / 100) * sp"
    and "\<exists>imp. total_monthly_impressions mau v d = Inr imp
           \<and> ad_revenue r = (if imp \<ge> 2000000 then (imp / 1000) * rpm else 0)
           \<and> ad_eligibility_message r =
               (if imp \<ge> 2000000 then eligible_message else not_eligible_message)"
    and "total_revenue r = subscription_revenue r + ad_revenue r"
    and "\<exists>t. dict_get (costs r) ''total'' = Inr t \<and> net_profit r = total_revenue r - t"
  using assms
  by (auto simp: calculate_financials_def Let_def AD_IMPRESSION_THRESHOLD_def
        split: sum.splits if_splits)

lemma calculate_financials_returns:
  assumes "0 \<le> mau"
  shows "\<exists>r. calculate_financials mau dp up v sp spc rpm d = Inr r"
proof -
  obtain cs where cs: "calculate_costs mau dp up v d = Inr cs"
    using calculate_costs_nonneg_returns [OF assms] by blast
  obtain t where t: "dict_get cs ''total'' = Inr t"
    using calculate_costs_total [OF cs] by blast
  show ?thesis
    by (simp add: calculate_financials_def cs t impressions_eq Let_def split: prod.splits)
qed

lemma calculate_financials_neg:
  "mau < 0 \<Longrightarrow> calculate_financials mau dp up v sp spc rpm d = Inl ValueError"
  by (simp add: calculate_financials_def calculate_costs_neg)


text \<open>
  The whole report at 99,999 users and the sliders' defaults for the other inputs, where
  the scale factor is 1.
\<close>

lemma calculate_financials_example:
  "calculate_financials 99999 20 5 30 7.99 2 0.1 0.7 =
     Inr \<lparr> costs = [(''media_processing'', 119698803 / 40000),
                    (''storage_delivery'', 7463625363 / 2560000),
                    (''database'', 2550),
                    (''compute_recommendation'', 3250),
                    (''devops'', 50),
                    (''total'', 6020069751 / 512000)],
           subscription_revenue = 79899201 / 5000,
           ad_revenue = 7466592 / 15625,
           total_revenue = 2057212761 / 125000,
           net_profit = 300784214757 / 64000000,
           ad_eligibility_message = eligible_message \<rparr>"
  by (simp add: calculate_financials_def calculate_costs_def nonzero_costs_def scale_factor_def
        math_log10_def py_truediv_def py_pow_def log10_100000 videos_per_month_def
        media_processing_def storage_delivery_def Let_def dict_get_def dict_values_def py_sum_def
        total_monthly_impressions_def views_per_user_def gb_per_video_def
        PRICE_PER_VIDEO_MINUTE_TRANSCODE_def PRICE_PER_1000_CHARS_AI_def PRICE_PER_GB_STORAGE_def
        PRICE_PER_MILLION_READ_OPS_def AD_IMPRESSION_THRESHOLD_def)

section \<open>Totals\<close>

lemma calculate_costs_cases:
  assumes "calculate_costs mau dp up v d = Inr cs"
  obtains (zero) "mau = 0" "cs = zero_costs"
    | (pos) "0 < mau" "nonzero_costs mau dp up v d = Inr cs"
proof (cases "mau = 0")
  case True
  with assms have "cs = zero_costs" by (simp add: calculate_costs_def)
  with True show ?thesis by (rule zero)
next
  case False
  have "\<not> mau < 0"
    using assms calculate_costs_neg [of mau dp up v d] by auto
  with False have "0 < mau" by simp
  moreover from assms False have "nonzero_costs mau dp up v d = Inr cs"
    by (simp add: calculate_costs_def)
  ultimately show ?thesis by (rule pos)
qed

lemma dict_total_is_sum:
  assumes "calculate_costs mau dp up v d = Inr cs"
  shows "\<exists>mp sd db cr dv.
           dict_get cs ''media_processing'' = Inr mp
         \<and> dict_get cs ''storage_delivery'' = Inr sd
         \<and> dict_get cs ''database'' = Inr db
         \<and> dict_get cs ''compute_recommendation'' = Inr cr
         \<and> dict_get cs ''devops'' = Inr dv
         \<and> dict_get cs ''total'' = Inr (mp + sd + db + cr + dv)"
  using assms
proof (cases rule: calculate_costs_cases)
  case zero
  then show ?thesis
    by (simp add: dict_get_def zero_costs_def)
next
  case pos
  then show ?thesis
    by (auto simp: dict_get_def nonzero_costs_pos)
qed

text \<open>
  Claim C1. Whenever a report is returned, its \<open>costs\<close> holds the five components and
  \<open>total\<close>, and \<open>total\<close> is the sum of the five components, in the branch
  \<open>mau == 0\<close> as in the other one.
\<close>

theorem costs_total_is_sum:
  assumes "calculate_financials mau dp up v sp spc rpm d = Inr r"
  shows "\<exists>mp sd db cr dv.
           cost r ''media_processing'' = Inr mp
         \<and> cost r ''storage_delivery'' = Inr sd
         \<and> cost r ''database'' = Inr db
         \<and> cost r ''compute_recommendation'' = Inr cr
         \<and> cost r ''devops'' = Inr dv
         \<and> cost r ''total'' = Inr (mp + sd + db + cr + dv)"
  unfolding cost_def
  using assms by (intro dict_total_is_sum calculate_financials_Inr(1))

text \<open>An input of the branch \<open>mau != 0\<close>.\<close>

theorem costs_total_is_sum_witness:
  "\<exists>r. calculate_financials 99999 20 5 30 7.99 2 0.1 0.7 = Inr r
     \<and> (\<exists>mp sd db cr dv.
           cost r ''media_processing'' = Inr mp
         \<and> cost r ''storage_delivery'' = Inr sd
         \<and> cost r ''database'' = Inr db
         \<and> cost r ''compute_recommendation'' = Inr cr
         \<and> cost r ''devops'' = Inr dv
         \<and> cost r ''total'' = Inr (mp + sd + db + cr + dv))"
proof -
  obtain r where r: "calculate_financials 99999 20 5 30 7.99 2 0.1 0.7 = Inr r"
    using calculate_financials_example by blast
  show ?thesis
    using r costs_total_is_sum [OF r] by blast
qed

text \<open>
  Claim C2. Whenever a report is returned, \<open>total_revenue\<close> is
  \<open>subscription_revenue + ad_revenue\<close> and \<open>net_profit\<close> is \<open>total_revenue\<close> minus
  the \<open>total\<close> entry of \<open>costs\<close>.
\<close>

theorem revenue_and_profit_totals:
  assumes "calculate_financials mau dp up v sp spc rpm d = Inr r"
  shows "total_revenue r = subscription_revenue r + ad_revenue r
       \<and> (\<exists>t. cost r ''total'' = Inr t \<and> net_profit r = total_revenue r - t)"
  using calculate_financials_Inr(4,5) [OF assms] by (simp add: cost_def)

theorem revenue_and_profit_totals_witness:
  "\<exists>r. calculate_financials 99999 20 5 30 7.99 2 0.1 0.7 = Inr r
     \<and> total_revenue r = subscription_revenue r + ad_revenue r
     \<and> (\<exists>t. cost r ''total'' = Inr t \<and> net_profit r = total_revenue r - t)"
proof -
  obtain r where r: "calculate_financials 99999 20 5 30 7.99 2 0.1 0.7 = Inr r"
    using calculate_financials_example by blast
  show ?thesis
    using r revenue_and_profit_totals [OF r] by blast
qed

section \<open>No active users\<close>

lemma calculate_financials_zero:
  "calculate_financials 0 dp up v sp spc rpm d =
     Inr \<lparr> costs = zero_costs, subscription_revenue = 0, ad_revenue = 0,
           total_revenue = 0, net_profit = 0,
           ad_eligibility_message = not_eligible_message \<rparr>"
  by (simp add: calculate_financials_def calculate_costs_def impressions_eq
        AD_IMPRESSION_THRESHOLD_def dict_get_def zero_costs_def)

text \<open>
  Claim C4. With \<open>mau = 0\<close> a report is returned whatever the other seven inputs are,
  all six entries of its \<open>costs\<close> are 0 and so is \<open>subscription_revenue\<close>.
\<close>

theorem zero_mau_costs_zero:
  "\<exists>r. calculate_financials 0 dp up v sp spc rpm d = Inr r
     \<and> cost r ''media_processing'' = Inr 0
     \<and> cost r ''storage_delivery'' = Inr 0
     \<and> cost r ''database'' = Inr 0
     \<and> cost r ''compute_recommendation'' = Inr 0
     \<and> cost r ''devops'' = Inr 0
     \<and> cost r ''total'' = Inr 0
     \<and> subscription_revenue r = 0"
  by (simp add: calculate_financials_zero cost_def dict_get_def zero_costs_def)

text \<open>
  Claim C9. With \<open>mau = 0\<close> the impressions are 0, hence below the threshold: the
  report has \<open>ad_revenue\<close>, \<open>total_revenue\<close> and \<open>net_profit\<close> equal to 0 and carries
  the not-eligible message, whatever the other seven inputs are.
\<close>

theorem zero_mau_revenue_zero:
  "\<exists>r. calculate_financials 0 dp up v sp spc rpm d = Inr r
     \<and> total_monthly_impressions 0 v d = Inr 0
     \<and> ad_revenue r = 0
     \<and> total_revenue r = 0
     \<and> net_profit r = 0
     \<and> ad_eligibility_message r = not_eligible_message"
  by (simp add: calculate_financials_zero impressions_eq)


section \<open>Advertising revenue\<close>

text \<open>
  Claim C3. Whenever a report is returned, the impressions are a number \<open>imp\<close>; from
  2,000,000 impressions on, \<open>ad_revenue\<close> is \<open>imp / 1000 * ad_rpm\<close> with the eligible
  message, below it \<open>ad_revenue\<close> is 0 with the not-eligible message. At exactly
  2,000,000 impressions and \<open>ad_rpm\<close> within 0.04 and 0.25 the revenue is positive, at
  1,999,999 impressions it is 0. The two messages are different strings.
\<close>

theorem ad_revenue_by_threshold:
  assumes "calculate_financials mau dp up v sp spc rpm d = Inr r"
  shows "(\<exists>imp. total_monthly_impressions mau v d = Inr imp
           \<and> (if imp \<ge> 2000000
               then ad_revenue r = imp / 1000 * rpm
                    \<and> ad_eligibility_message r = eligible_message
               else ad_revenue r = 0
                    \<and> ad_eligibility_message r = not_eligible_message)
           \<and> (imp = 2000000 \<and> 0.04 \<le> rpm \<and> rpm \<le> 0.25 \<longrightarrow> 0 < ad_revenue r)
           \<and> (imp = 2000000 - 1 \<longrightarrow> ad_revenue r = 0))
       \<and> eligible_message \<noteq> not_eligible_message"
proof -
  obtain imp where imp: "total_monthly_impressions mau v d = Inr imp"
    and ad: "ad_revenue r = (if imp \<ge> 2000000 then (imp / 1000) * rpm else 0)"
    and msg: "ad_eligibility_message r =
                (if imp \<ge> 2000000 then eligible_message else not_eligible_message)"
    using calculate_financials_Inr(3) [OF assms] by blast
  show ?thesis
    by (intro conjI exI [of _ imp] messages_differ) (simp_all add: imp ad msg)
qed

text \<open>
  Two inputs on the boundary: 1,000,000 users with 2 views each, and 1,999,999 users
  with one view each.
\<close>

theorem ad_revenue_by_threshold_witness:
  "(\<exists>r. calculate_financials 1000000 20 5 30 7.99 2 0.04 (30 / 1024) = Inr r
       \<and> total_monthly_impressions 1000000 30 (30 / 1024) = Inr 2000000
       \<and> ad_revenue r = 80
       \<and> ad_eligibility_message r = eligible_message)
 \<and> (\<exists>r. calculate_financials 1999999 20 5 30 7.99 2 0.04 (15 / 1024) = Inr r
       \<and> total_monthly_impressions 1999999 30 (15 / 1024) = Inr (2000000 - 1)
       \<and> ad_revenue r = 0
       \<and> ad_eligibility_message r = not_eligible_message)"
proof -
  obtain r where r: "calculate_financials 1000000 20 5 30 7.99 2 0.04 (30 / 1024) = Inr r"
    using calculate_financials_returns [of 1000000 20 5 30 "7.99" 2 "0.04" "30 / 1024"] by auto
  obtain r' where r': "calculate_financials 1999999 20 5 30 7.99 2 0.04 (15 / 1024) = Inr r'"
    using calculate_financials_returns [of 1999999 20 5 30 "7.99" 2 "0.04" "15 / 1024"] by auto
  have i: "total_monthly_impressions 1000000 30 (30 / 1024) = Inr 2000000"
    by (simp add: impressions_eq gb_per_video_def)
  have i': "total_monthly_impressions 1999999 30 (15 / 1024) = Inr (2000000 - 1)"
    by (simp add: impressions_eq gb_per_video_def)
  have "ad_revenue r = 80 \<and> ad_eligibility_message r = eligible_message"
    using ad_revenue_by_threshold [OF r] i by auto
  moreover have "ad_revenue r' = 0 \<and> ad_eligibility_message r' = not_eligible_message"
    using ad_revenue_by_threshold [OF r'] i' by auto
  ultimately show ?thesis
    using r r' i i' by blast
qed

section \<open>Which inputs return a report\<close>




section \<open>The guarded division\<close>

lemma gb_per_video_eq: "gb_per_video v = v / 2048"
  by (simp add: gb_per_video_def)

lemma calculate_financials_no_zero_division:
  "calculate_financials mau dp up v sp spc rpm d \<noteq> Inl ZeroDivisionError"
proof (cases "0 \<le> mau")
  case True
  then show ?thesis
    using calculate_financials_returns [of mau dp up v sp spc rpm d] by auto
next
  case False
  then show ?thesis
    by (simp add: calculate_financials_neg)
qed

text \<open>
  Claim C7. \<open>views_per_user\<close> is 0 whenever \<open>gb_per_video\<close> is not positive, it always has
  a value, and no input makes \<open>calculate_financials\<close> raise \<open>ZeroDivisionError\<close>. For a
  positive \<open>video_length_sec\<close>, \<open>gb_per_video\<close> is positive and \<open>views_per_user\<close> is the
  quotient.
\<close>

theorem views_per_user_guarded:
  "(gb_per_video v \<le> 0 \<longrightarrow> views_per_user v d = Inr 0)
 \<and> (\<exists>x. views_per_user v d = Inr x)
 \<and> calculate_financials mau dp up v sp spc rpm d \<noteq> Inl ZeroDivisionError
 \<and> (0 < v \<longrightarrow> 0 < gb_per_video v \<and> views_per_user v d = Inr (d / gb_per_video v))"
  by (simp add: views_per_user_eq gb_per_video_eq calculate_financials_no_zero_division)

theorem views_per_user_guarded_witness:
  "gb_per_video 0 \<le> 0 \<and> views_per_user 0 0.7 = Inr 0
 \<and> (0::real) < 30 \<and> 0 < gb_per_video 30 \<and> views_per_user 30 0.7 = Inr (0.7 / gb_per_video 30)
 \<and> gb_per_video 30 = 15 / 1024"
  using views_per_user_guarded [of 0 "0.7"] views_per_user_guarded [of 30 "0.7"]
  by (simp add: gb_per_video_eq)


section \<open>The scale factor\<close>

lemma scale_factor_99999: "scale_factor 99999 = Inr 1"
  by (simp add: scale_factor_pos log10_100000)

lemma ln10_gt_2: "2 < ln (10::real)"
proof -
  have "exp (2::real) = exp 1 * exp 1"
    by (simp flip: exp_add)
  also have "\<dots> \<le> 3 * 3"
    by (intro mult_mono exp_le) simp_all
  also have "\<dots> < (10::real)" by simp
  finally have "exp (2::real) < 10" .
  then have "ln (exp (2::real)) < ln 10"
    by (subst ln_less_cancel_iff) simp_all
  then show ?thesis by simp
qed

lemma log10_100001_bounds:
  "5 < log 10 (100001::real)" "log 10 (100001::real) < 5 + 5 / 10 ^ 6"
proof -
  have "log 10 (100000::real) < log 10 100001"
    by (subst log_less_cancel_iff) simp_all
  then show "5 < log 10 (100001::real)"
    by (simp add: log10_100000)
next
  have "ln (100001 / 100000 :: real) \<le> 100001 / 100000 - 1"
    by (rule ln_le_minus_one) simp
  then have a: "ln (100001 / 100000 :: real) \<le> 1 / 10 ^ 5" by simp
  have "log 10 (100001::real) = log 10 (100000 * (100001 / 100000))" by simp
  also have "\<dots> = log 10 100000 + log 10 (100001 / 100000)"
    by (rule log_mult_pos) simp_all
  also have "\<dots> = 5 + ln (100001 / 100000) / ln 10"
    unfolding log10_100000 by (simp only: log_def)
  also have "\<dots> < 5 + 5 / 10 ^ 6"
  proof -
    have "ln (100001 / 100000 :: real) / ln 10 \<le> (1 / 10 ^ 5) / ln 10"
      using a ln10_gt_2 by (intro divide_right_mono) simp_all
    also have "\<dots> < (1 / 10 ^ 5) / 2"
      using ln10_gt_2 by (intro divide_strict_left_mono) simp_all
    finally show ?thesis by simp
  qed
  finally show "log 10 (100001::real) < 5 + 5 / 10 ^ 6" .
qed

text \<open>
  Claim C5, as stated, fails: at \<open>mau = 99999\<close> the argument of the logarithm is
  \<open>mau + 1 = 100000\<close>, so the scale factor is exactly 1 and not below it, and at
  \<open>mau = 100000\<close> it is not 1.
\<close>

theorem scale_factor_anchor_counterexample:
  "scale_factor 99999 = Inr 1 \<and> scale_factor 100000 \<noteq> Inr 1"
  using log10_100001_bounds(1) by (simp add: scale_factor_pos log10_100000)

text \<open>
  Claim C5, amended. The scale factor is \<open>log10(mau + 1) / log10(100000)\<close> wherever
  \<open>mau + 1\<close> is positive (and a \<open>ValueError\<close> elsewhere); it is exactly 1 at
  \<open>mau = 99999\<close>, and at \<open>mau = 100000\<close> it lies strictly between 1 and 1.000001.
\<close>

theorem scale_factor_anchor:
  "scale_factor mau =
     (if mau + 1 \<le> 0 then Inl ValueError
      else Inr (log 10 (real_of_int mau + 1) / log 10 100000))
 \<and> scale_factor 99999 = Inr 1
 \<and> (\<exists>s. scale_factor 100000 = Inr s \<and> 1 < s \<and> s < 1 + 1 / 10 ^ 6)"
proof -
  have "scale_factor mau =
     (if mau + 1 \<le> 0 then Inl ValueError
      else Inr (log 10 (real_of_int mau + 1) / log 10 100000))"
    by (simp add: scale_factor_def math_log10_def py_truediv_def log10_100000)
  moreover have "scale_factor 99999 = Inr 1"
    by (simp add: scale_factor_pos log10_100000)
  moreover have "\<exists>s. scale_factor 100000 = Inr s \<and> 1 < s \<and> s < 1 + 1 / 10 ^ 6"
  proof (intro exI conjI)
    show "scale_factor 100000 = Inr (log 10 100001 / 5)"
      by (simp add: scale_factor_pos)
    show "1 < log 10 (100001::real) / 5"
      using log10_100001_bounds(1) by simp
    show "log 10 (100001::real) / 5 < 1 + 1 / 10 ^ 6"
      using log10_100001_bounds(2) by simp
  qed
  ultimately show ?thesis by blast
qed


section \<open>Growth with the number of users\<close>

lemma videos_per_month_zero: "videos_per_month 0 dp up = 0"
  by (simp add: videos_per_month_def)

lemma media_processing_zero: "media_processing 0 v = 0"
  by (simp add: media_processing_def)

lemma storage_delivery_zero: "storage_delivery 0 0 d = 0"
  by (simp add: storage_delivery_def)

lemma videos_per_month_nonneg:
  assumes "0 \<le> mau" "0 \<le> dp" "0 \<le> up"
  shows "0 \<le> videos_per_month mau dp up"
  using assms by (simp add: videos_per_month_def)

lemma videos_per_month_mono:
  assumes "mau \<le> mau'" "0 \<le> dp" "0 \<le> up"
  shows "videos_per_month mau dp up \<le> videos_per_month mau' dp up"
proof -
  have "real_of_int mau * (dp * up) \<le> real_of_int mau' * (dp * up)"
    using assms by (intro mult_right_mono) simp_all
  then show ?thesis
    by (simp add: videos_per_month_def algebra_simps)
qed

lemma media_processing_nonneg:
  assumes "0 \<le> vpm" "0 \<le> v"
  shows "0 \<le> media_processing vpm v"
  using assms
  by (simp add: media_processing_def Let_def PRICE_PER_VIDEO_MINUTE_TRANSCODE_def
        PRICE_PER_1000_CHARS_AI_def)

lemma storage_delivery_mono:
  assumes "vpm \<le> vpm'" "mau \<le> mau'" "0 \<le> d"
  shows "storage_delivery vpm mau d \<le> storage_delivery vpm' mau' d"
proof -
  have "real_of_int mau * d \<le> real_of_int mau' * d"
    using assms by (intro mult_right_mono) simp_all
  with assms(1) show ?thesis
    by (simp add: storage_delivery_def Let_def PRICE_PER_GB_STORAGE_def
          PRICE_PER_MILLION_READ_OPS_def)
qed

lemma storage_delivery_nonneg:
  assumes "0 \<le> vpm" "0 \<le> mau" "0 \<le> d"
  shows "0 \<le> storage_delivery vpm mau d"
  using storage_delivery_mono [of 0 vpm 0 mau d] assms
  by (simp add: storage_delivery_zero)

lemma log10_succ_nonneg: "0 \<le> mau \<Longrightarrow> 0 \<le> log 10 (real_of_int (mau + 1))"
  by simp

lemma log10_succ_mono:
  "0 \<le> mau \<Longrightarrow> mau \<le> mau' \<Longrightarrow>
     log 10 (real_of_int (mau + 1)) \<le> log 10 (real_of_int (mau' + 1))"
  by simp

lemma calculate_costs_entries:
  assumes "0 \<le> mau"
  shows "\<exists>cs. calculate_costs mau dp up v d = Inr cs
      \<and> dict_get cs ''media_processing'' = Inr (media_processing (videos_per_month mau dp up) v)
      \<and> dict_get cs ''storage_delivery'' =
          Inr (storage_delivery (videos_per_month mau dp up) mau d)
      \<and> dict_get cs ''database'' = Inr (2550 * (log 10 (real_of_int (mau + 1)) / 5) powr 1.5)
      \<and> dict_get cs ''compute_recommendation'' =
          Inr (3250 * (log 10 (real_of_int (mau + 1)) / 5) powr 1.8)
      \<and> dict_get cs ''devops'' = Inr (50 * (log 10 (real_of_int (mau + 1)) / 5))"
proof (cases "mau = 0")
  case True
  then show ?thesis
    by (simp add: calculate_costs_def zero_costs_def dict_get_def videos_per_month_zero
          media_processing_zero storage_delivery_zero)
next
  case False
  with assms have "0 < mau" by simp
  then show ?thesis
    by (simp add: calculate_costs_def nonzero_costs_pos dict_get_def del: of_int_add)
qed

lemma calculate_financials_entries:
  assumes "0 \<le> mau"
  shows "\<exists>r. calculate_financials mau dp up v sp spc rpm d = Inr r
      \<and> cost r ''media_processing'' = Inr (media_processing (videos_per_month mau dp up) v)
      \<and> cost r ''storage_delivery'' = Inr (storage_delivery (videos_per_month mau dp up) mau d)
      \<and> cost r ''database'' = Inr (2550 * (log 10 (real_of_int (mau + 1)) / 5) powr 1.5)
      \<and> cost r ''compute_recommendation'' =
          Inr (3250 * (log 10 (real_of_int (mau + 1)) / 5) powr 1.8)
      \<and> cost r ''devops'' = Inr (50 * (log 10 (real_of_int (mau + 1)) / 5))
      \<and> subscription_revenue r = real_of_int mau * (spc / 100) * sp"
proof -
  obtain r where r: "calculate_financials mau dp up v sp spc rpm d = Inr r"
    using calculate_financials_returns [OF assms] by blast
  have cs: "calculate_costs mau dp up v d = Inr (costs r)"
    using r by (rule calculate_financials_Inr(1))
  show ?thesis
    using calculate_costs_entries [OF assms, of dp up v d] calculate_financials_Inr(2) [OF r]
    by (intro exI [of _ r]) (simp add: r cs cost_def del: of_int_add)
qed

text \<open>
  Claim C8, as stated for all inputs, fails: with a subscription price of \<open>-1\<close> and a data
  consumption of \<open>-0.7\<close> GB, going from 0 to 99,999 users takes \<open>storage_delivery\<close> from 0
  to \<open>-5438645613 / 2560000\<close> and \<open>subscription_revenue\<close> from 0 to \<open>-99999 / 50\<close>.
\<close>

theorem mau_monotone_counterexample:
  "calculate_financials 0 20 5 30 (- 1) 2 0.1 (- 0.7) =
     Inr \<lparr> costs = [(''media_processing'', 0), (''storage_delivery'', 0), (''database'', 0),
                    (''compute_recommendation'', 0), (''devops'', 0), (''total'', 0)],
           subscription_revenue = 0,
           ad_revenue = 0,
           total_revenue = 0,
           net_profit = 0,
           ad_eligibility_message = not_eligible_message \<rparr>
 \<and> calculate_financials 99999 20 5 30 (- 1) 2 0.1 (- 0.7) =
     Inr \<lparr> costs = [(''media_processing'', 119698803 / 40000),
                    (''storage_delivery'', - 5438645613 / 2560000),
                    (''database'', 2550),
                    (''compute_recommendation'', 3250),
                    (''devops'', 50),
                    (''total'', 17198077779 / 2560000)],
           subscription_revenue = - 99999 / 50,
           ad_revenue = 0,
           total_revenue = - 99999 / 50,
           net_profit = - 22318026579 / 2560000,
           ad_eligibility_message = not_eligible_message \<rparr>
 \<and> (- 5438645613 / 2560000 :: real) < 0
 \<and> (- 99999 / 50 :: real) < 0"
  by (simp add: calculate_financials_def calculate_costs_def nonzero_costs_def scale_factor_def
        math_log10_def py_truediv_def py_pow_def log10_100000 videos_per_month_def
        media_processing_def storage_delivery_def Let_def dict_get_def dict_values_def py_sum_def
        total_monthly_impressions_def views_per_user_def gb_per_video_def zero_costs_def
        PRICE_PER_VIDEO_MINUTE_TRANSCODE_def PRICE_PER_1000_CHARS_AI_def PRICE_PER_GB_STORAGE_def
        PRICE_PER_MILLION_READ_OPS_def AD_IMPRESSION_THRESHOLD_def)

text \<open>
  Claim C8, amended. Let \<open>0 \<le> mau \<le> mau'\<close>, with \<open>mau'\<close> an int that converts to a float,
  and let the other seven inputs be the same in both calls. Both calls return a report,
  and from the first to the second the entries \<open>database\<close>, \<open>compute_recommendation\<close> and
  \<open>devops\<close> do not decrease, whatever the other inputs are; \<open>storage_delivery\<close> does not
  decrease provided the two percentages and the data consumption are non-negative, and
  \<open>subscription_revenue\<close> does not decrease provided the subscription percentage and
  price are non-negative.
\<close>

theorem mau_monotone:
  assumes "0 \<le> mau" and "mau \<le> mau'" and "mau' < int_float_limit"
  shows "\<exists>r r'. calculate_financials mau dp up v sp spc rpm d = Inr r
      \<and> calculate_financials mau' dp up v sp spc rpm d = Inr r'
      \<and> (\<exists>x x'. cost r ''database'' = Inr x \<and> cost r' ''database'' = Inr x' \<and> x \<le> x')
      \<and> (\<exists>x x'. cost r ''compute_recommendation'' = Inr x
             \<and> cost r' ''compute_recommendation'' = Inr x' \<and> x \<le> x')
      \<and> (\<exists>x x'. cost r ''devops'' = Inr x \<and> cost r' ''devops'' = Inr x' \<and> x \<le> x')
      \<and> (0 \<le> dp \<and> 0 \<le> up \<and> 0 \<le> d \<longrightarrow>
           (\<exists>x x'. cost r ''storage_delivery'' = Inr x
              \<and> cost r' ''storage_delivery'' = Inr x' \<and> x \<le> x'))
      \<and> (0 \<le> spc \<and> 0 \<le> sp \<longrightarrow> subscription_revenue r \<le> subscription_revenue r')"
proof -
  from assms have nn': "0 \<le> mau'" by simp
  obtain r where r: "calculate_financials mau dp up v sp spc rpm d = Inr r"
    and db: "cost r ''database'' = Inr (2550 * (log 10 (real_of_int (mau + 1)) / 5) powr 1.5)"
    and cr: "cost r ''compute_recommendation'' =
               Inr (3250 * (log 10 (real_of_int (mau + 1)) / 5) powr 1.8)"
    and dv: "cost r ''devops'' = Inr (50 * (log 10 (real_of_int (mau + 1)) / 5))"
    and sd: "cost r ''storage_delivery'' =
               Inr (storage_delivery (videos_per_month mau dp up) mau d)"
    and sr: "subscription_revenue r = real_of_int mau * (spc / 100) * sp"
    using calculate_financials_entries [OF assms(1), of dp up v sp spc rpm d] by blast
  obtain r' where r': "calculate_financials mau' dp up v sp spc rpm d = Inr r'"
    and db': "cost r' ''database'' = Inr (2550 * (log 10 (real_of_int (mau' + 1)) / 5) powr 1.5)"
    and cr': "cost r' ''compute_recommendation'' =
               Inr (3250 * (log 10 (real_of_int (mau' + 1)) / 5) powr 1.8)"
    and dv': "cost r' ''devops'' = Inr (50 * (log 10 (real_of_int (mau' + 1)) / 5))"
    and sd': "cost r' ''storage_delivery'' =
               Inr (storage_delivery (videos_per_month mau' dp up) mau' d)"
    and sr': "subscription_revenue r' = real_of_int mau' * (spc / 100) * sp"
    using calculate_financials_entries [OF nn', of dp up v sp spc rpm d] by blast
  have sf0: "0 \<le> log 10 (real_of_int (mau + 1)) / 5"
    using log10_succ_nonneg [OF assms(1)] by simp
  have sf: "log 10 (real_of_int (mau + 1)) / 5 \<le> log 10 (real_of_int (mau' + 1)) / 5"
    using log10_succ_mono [OF assms(1,2)] by simp
  have p15: "(log 10 (real_of_int (mau + 1)) / 5) powr 1.5
               \<le> (log 10 (real_of_int (mau' + 1)) / 5) powr 1.5"
    using sf0 sf by (intro powr_mono2) simp_all
  have p18: "(log 10 (real_of_int (mau + 1)) / 5) powr 1.8
               \<le> (log 10 (real_of_int (mau' + 1)) / 5) powr 1.8"
    using sf0 sf by (intro powr_mono2) simp_all
  have storage: "storage_delivery (videos_per_month mau dp up) mau d
                   \<le> storage_delivery (videos_per_month mau' dp up) mau' d"
    if "0 \<le> dp \<and> 0 \<le> up \<and> 0 \<le> d"
    using that assms(2) by (intro storage_delivery_mono videos_per_month_mono) simp_all
  have subs: "real_of_int mau * (spc / 100) * sp \<le> real_of_int mau' * (spc / 100) * sp"
    if "0 \<le> spc \<and> 0 \<le> sp"
    using that assms(2) by (intro mult_right_mono) simp_all
  show ?thesis
    using p15 p18 sf storage subs
    by (intro exI [of _ r] exI [of _ r'])
       (simp add: r r' db db' cr cr' dv dv' sd sd' sr sr' del: of_int_add)
qed

text \<open>From 9 to 99,999 users, the other inputs at the sliders' defaults.\<close>

theorem mau_monotone_witness:
  "(0::int) \<le> 9 \<and> (9::int) \<le> 99999 \<and> 99999 < int_float_limit
 \<and> (\<exists>r r'. calculate_financials 9 20 5 30 7.99 2 0.1 0.7 = Inr r
      \<and> calculate_financials 99999 20 5 30 7.99 2 0.1 0.7 = Inr r'
      \<and> (\<exists>x x'. cost r ''database'' = Inr x \<and> cost r' ''database'' = Inr x' \<and> x \<le> x')
      \<and> (\<exists>x x'. cost r ''compute_recommendation'' = Inr x
             \<and> cost r' ''compute_recommendation'' = Inr x' \<and> x \<le> x')
      \<and> (\<exists>x x'. cost r ''devops'' = Inr x \<and> cost r' ''devops'' = Inr x' \<and> x \<le> x')
      \<and> (\<exists>x x'. cost r ''storage_delivery'' = Inr x
             \<and> cost r' ''storage_delivery'' = Inr x' \<and> x \<le> x')
      \<and> subscription_revenue r \<le> subscription_revenue r')"
  using mau_monotone [where mau = 9 and mau' = 99999 and dp = 20 and up = 5 and v = 30
      and sp = "7.99" and spc = 2 and rpm = "0.1" and d = "0.7"]
  by (simp add: int_float_limit_def)

section \<open>Signs\<close>

lemma net_profit_negative_example:
  "\<exists>r. calculate_financials 99999 5 1 120 0 0.25 0.04 0.1 = Inr r \<and> net_profit r < 0"
  by (simp add: calculate_financials_def calculate_costs_def nonzero_costs_def scale_factor_def
        math_log10_def py_truediv_def py_pow_def log10_100000 videos_per_month_def
        media_processing_def storage_delivery_def Let_def dict_get_def dict_values_def py_sum_def
        total_monthly_impressions_def views_per_user_def gb_per_video_def
        PRICE_PER_VIDEO_MINUTE_TRANSCODE_def PRICE_PER_1000_CHARS_AI_def PRICE_PER_GB_STORAGE_def
        PRICE_PER_MILLION_READ_OPS_def AD_IMPRESSION_THRESHOLD_def)

text \<open>
  Claim C10. For inputs within the declared domains (\<open>mau \<ge> 0\<close>, percentages, prices and
  data consumption non-negative, video length positive) a report is returned whose six
  cost entries, \<open>subscription_revenue\<close>, \<open>ad_revenue\<close> and \<open>total_revenue\<close> are all
  non-negative. \<open>net_profit\<close> is not bound in that way: the input 99,999 users, 5 percent
  daily, 1 percent uploading, 120 seconds, price 0, 0.25 percent subscribing, RPM 0.04
  and 0.1 GB, within the sliders' ranges, has a negative \<open>net_profit\<close>.
\<close>

theorem in_domain_nonneg:
  assumes "0 \<le> mau" and "0 \<le> dp" and "0 \<le> up" and "0 < v"
    and "0 \<le> sp" and "0 \<le> spc" and "0 \<le> rpm" and "0 \<le> d"
  shows "(\<exists>r. calculate_financials mau dp up v sp spc rpm d = Inr r
      \<and> (\<exists>mp sd db cr dv t.
             cost r ''media_processing'' = Inr mp \<and> 0 \<le> mp
           \<and> cost r ''storage_delivery'' = Inr sd \<and> 0 \<le> sd
           \<and> cost r ''database'' = Inr db \<and> 0 \<le> db
           \<and> cost r ''compute_recommendation'' = Inr cr \<and> 0 \<le> cr
           \<and> cost r ''devops'' = Inr dv \<and> 0 \<le> dv
           \<and> cost r ''total'' = Inr t \<and> 0 \<le> t)
      \<and> 0 \<le> subscription_revenue r
      \<and> 0 \<le> ad_revenue r
      \<and> 0 \<le> total_revenue r)
   \<and> (\<exists>r. calculate_financials 99999 5 1 120 0 0.25 0.04 0.1 = Inr r \<and> net_profit r < 0)"
proof -
  obtain r where r: "calculate_financials mau dp up v sp spc rpm d = Inr r"
    and mp: "cost r ''media_processing'' = Inr (media_processing (videos_per_month mau dp up) v)"
    and sd: "cost r ''storage_delivery'' =
               Inr (storage_delivery (videos_per_month mau dp up) mau d)"
    and db: "cost r ''database'' = Inr (2550 * (log 10 (real_of_int (mau + 1)) / 5) powr 1.5)"
    and cr: "cost r ''compute_recommendation'' =
               Inr (3250 * (log 10 (real_of_int (mau + 1)) / 5) powr 1.8)"
    and dv: "cost r ''devops'' = Inr (50 * (log 10 (real_of_int (mau + 1)) / 5))"
    and sr: "subscription_revenue r = real_of_int mau * (spc / 100) * sp"
    using calculate_financials_entries [OF assms(1), of dp up v sp spc rpm d] by blast
  have vpm: "0 \<le> videos_per_month mau dp up"
    using assms by (intro videos_per_month_nonneg)
  have mp0: "0 \<le> media_processing (videos_per_month mau dp up) v"
    using vpm assms(4) by (intro media_processing_nonneg) simp_all
  have sd0: "0 \<le> storage_delivery (videos_per_month mau dp up) mau d"
    using vpm assms by (intro storage_delivery_nonneg)
  have db0: "0 \<le> 2550 * (log 10 (real_of_int (mau + 1)) / 5) powr 1.5"
    by simp
  have cr0: "0 \<le> 3250 * (log 10 (real_of_int (mau + 1)) / 5) powr 1.8"
    by simp
  have dv0: "0 \<le> 50 * (log 10 (real_of_int (mau + 1)) / 5)"
    using log10_succ_nonneg [OF assms(1)] by simp
  have tot: "cost r ''total'' =
      Inr (media_processing (videos_per_month mau dp up) v
           + storage_delivery (videos_per_month mau dp up) mau d
           + 2550 * (log 10 (real_of_int (mau + 1)) / 5) powr 1.5
           + 3250 * (log 10 (real_of_int (mau + 1)) / 5) powr 1.8
           + 50 * (log 10 (real_of_int (mau + 1)) / 5))"
    using dict_total_is_sum [OF calculate_financials_Inr(1) [OF r]] mp sd db cr dv
    by (auto simp: cost_def)
  have sr0: "0 \<le> subscription_revenue r"
    unfolding sr using assms by (intro mult_nonneg_nonneg) simp_all
  have ad0: "0 \<le> ad_revenue r"
  proof -
    obtain imp where ad: "ad_revenue r = (if imp \<ge> 2000000 then (imp / 1000) * rpm else 0)"
      using calculate_financials_Inr(3) [OF r] by blast
    show ?thesis
    proof (cases "imp \<ge> 2000000")
      case True
      then have "0 \<le> (imp / 1000) * rpm"
        using assms(7) by (intro mult_nonneg_nonneg) simp_all
      with True show ?thesis by (simp only: ad if_True)
    next
      case False
      then show ?thesis by (simp add: ad)
    qed
  qed
  have tr0: "0 \<le> total_revenue r"
    using calculate_financials_Inr(4) [OF r] sr0 ad0 by simp
  have "\<exists>r. calculate_financials mau dp up v sp spc rpm d = Inr r
      \<and> (\<exists>mp sd db cr dv t.
             cost r ''media_processing'' = Inr mp \<and> 0 \<le> mp
           \<and> cost r ''storage_delivery'' = Inr sd \<and> 0 \<le> sd
           \<and> cost r ''database'' = Inr db \<and> 0 \<le> db
           \<and> cost r ''compute_recommendation'' = Inr cr \<and> 0 \<le> cr
           \<and> cost r ''devops'' = Inr dv \<and> 0 \<le> dv
           \<and> cost r ''total'' = Inr t \<and> 0 \<le> t)
      \<and> 0 \<le> subscription_revenue r
      \<and> 0 \<le> ad_revenue r
      \<and> 0 \<le> total_revenue r"
    using mp0 sd0 db0 cr0 dv0 sr0 ad0 tr0
    by (intro exI [of _ r]) (simp add: r mp sd db cr dv tot del: of_int_add)
  then show ?thesis
    using net_profit_negative_example by (rule conjI)
qed


theorem in_domain_nonneg_witness:
  "(0::int) \<le> 99999 \<and> (0::real) \<le> 20 \<and> (0::real) \<le> 5 \<and> (0::real) < 30
 \<and> (0::real) \<le> 7.99 \<and> (0::real) \<le> 2 \<and> (0::real) \<le> 0.1 \<and> (0::real) \<le> 0.7
 \<and> (\<exists>r. calculate_financials 99999 20 5 30 7.99 2 0.1 0.7 = Inr r
      \<and> (\<exists>mp sd db cr dv t.
             cost r ''media_processing'' = Inr mp \<and> 0 \<le> mp
           \<and> cost r ''storage_delivery'' = Inr sd \<and> 0 \<le> sd
           \<and> cost r ''database'' = Inr db \<and> 0 \<le> db
           \<and> cost r ''compute_recommendation'' = Inr cr \<and> 0 \<le> cr
           \<and> cost r ''devops'' = Inr dv \<and> 0 \<le> dv
           \<and> cost r ''total'' = Inr t \<and> 0 \<le> t)
      \<and> 0 \<le> subscription_revenue r
      \<and> 0 \<le> ad_revenue r
      \<and> 0 \<le> total_revenue r)"
  using in_domain_nonneg [where mau = 99999 and dp = 20 and up = 5 and v = 30
      and sp = "7.99" and spc = 2 and rpm = "0.1" and d = "0.7"]
  by simp

end
